theory Spec2Isabelle
  imports Main
begin

section \<open>The spatial map of \<^verbatim>\<open>quantum_console/static/js/spatial_map.js\<close>\<close>

text \<open>
  The file holds one class, \<^verbatim>\<open>SpatialMap\<close>, and the handler of the web socket that
  feeds it. The class keeps a scene (a list of children), and \<^verbatim>\<open>updateEntities\<close>
  rebuilds the meshes of the scene from a list of entities: it first drops every child
  whose type is \<^verbatim>\<open>'Mesh'\<close> and then adds one new mesh for each entity.

  The rendering engine (scene, lights, meshes, materials) and \<^verbatim>\<open>JSON.parse\<close> are
  not part of the repository. Of a scene object the model keeps what this file gives it:
  its type, the arguments of \<^verbatim>\<open>position.set\<close> and the colour argument of its
  constructor or material, and the identity of the instance.
\<close>

subsection \<open>Values of the language\<close>

text \<open>
  What \<^verbatim>\<open>JSON.parse\<close> returns, and \<^verbatim>\<open>undefined\<close>, which reading a missing member
  gives. The type \<open>'n\<close> is the host's number type; the model never computes with
  numbers. An object is the list of its own members, name and value; a read finds the
  first pair with the name.
\<close>

datatype 'n jsval =
    JUndefined
  | JNull
  | JBool bool
  | JNum 'n
  | JStr string
  | JArr "'n jsval list"
  | JObj "(string \<times> 'n jsval) list"

datatype exn = SyntaxError | TypeError

text \<open>
  The member read \<^verbatim>\<open>v.k\<close>, for the names this file reads (\<^verbatim>\<open>type\<close>,
  \<^verbatim>\<open>entities\<close>, \<^verbatim>\<open>status\<close>, \<^verbatim>\<open>coordinates\<close>, \<^verbatim>\<open>x\<close>, \<^verbatim>\<open>y\<close>,
  \<^verbatim>\<open>z\<close>). None of them is a member of a built-in prototype, so on an object the read
  gives the own member or \<^verbatim>\<open>undefined\<close>, on an array, string, number or boolean it
  gives \<^verbatim>\<open>undefined\<close>, and on \<^verbatim>\<open>null\<close> and \<^verbatim>\<open>undefined\<close> it throws a TypeError.
\<close>

fun get :: "'n jsval \<Rightarrow> string \<Rightarrow> exn + 'n jsval" where
  "get JUndefined k = Inl TypeError"
| "get JNull k = Inl TypeError"
| "get (JObj kvs) k = Inr (case map_of kvs k of None \<Rightarrow> JUndefined | Some v \<Rightarrow> v)"
| "get v k = Inr JUndefined"

text \<open>
  A value used as a property key is first converted to a string. An array is joined with
  commas, \<^verbatim>\<open>null\<close> and \<^verbatim>\<open>undefined\<close> elements giving the empty string. An object
  decoded from JSON has the inherited \<^verbatim>\<open>toString\<close> unless it has an own member of
  that name, which then is no function: the conversion throws a TypeError. The rendering
  of a number is the host's, \<open>nstr\<close>.
\<close>

fun sequence :: "(exn + 'a) list \<Rightarrow> exn + 'a list" where
  "sequence [] = Inr []"
| "sequence (r # rs) =
     (case r of
        Inl e \<Rightarrow> Inl e
      | Inr v \<Rightarrow> (case sequence rs of Inl e \<Rightarrow> Inl e | Inr vs \<Rightarrow> Inr (v # vs)))"

fun join :: "string list \<Rightarrow> string" where
  "join [] = []"
| "join [s] = s"
| "join (s # t # ts) = s @ '','' @ join (t # ts)"

fun ToString :: "('n \<Rightarrow> string) \<Rightarrow> 'n jsval \<Rightarrow> exn + string" where
  "ToString nstr JUndefined = Inr ''undefined''"
| "ToString nstr JNull = Inr ''null''"
| "ToString nstr (JBool b) = Inr (if b then ''true'' else ''false'')"
| "ToString nstr (JNum n) = Inr (nstr n)"
| "ToString nstr (JStr s) = Inr s"
| "ToString nstr (JArr xs) =
     (case sequence
             (map (\<lambda>x. if x = JUndefined \<or> x = JNull then Inr [] else ToString nstr x) xs) of
        Inl e \<Rightarrow> Inl e
      | Inr ss \<Rightarrow> Inr (join ss))"
| "ToString nstr (JObj kvs) =
     (case map_of kvs ''toString'' of
        None \<Rightarrow> Inr ''[object Object]''
      | Some v \<Rightarrow> Inl TypeError)"

text \<open>
  For the examples the numbers are integers, rendered in decimal as the host renders an
  integer below \<open>10^21\<close> in magnitude.
\<close>

function digits :: "nat \<Rightarrow> string" where
  "digits n =
     (if n < 10 then [char_of (48 + n)] else digits (n div 10) @ [char_of (48 + n mod 10)])"
  by pat_completeness auto
termination
  by (relation "measure (\<lambda>n. n)") auto

declare digits.simps [simp del]

definition decimal :: "int \<Rightarrow> string" where
  "decimal i = (if i < 0 then CHR ''-'' # digits (nat (- i)) else digits (nat i))"

subsection \<open>Scene objects and the state of the map\<close>

text \<open>
  What \<^verbatim>\<open>colors[status]\<close> can give: a number of the table, a member inherited from
  \<^verbatim>\<open>Object.prototype\<close> (a function, or the prototype itself for \<^verbatim>\<open>__proto__\<close>), or
  \<^verbatim>\<open>undefined\<close>.
\<close>

datatype member = Num int | Builtin string | Absent

text \<open>
  A scene object: \<open>ref\<close> is the identity of the instance (every \<^verbatim>\<open>new\<close> of a light or
  a mesh takes the next one), \<open>type\<close> its \<^verbatim>\<open>type\<close> string, \<open>position\<close> the arguments of
  \<^verbatim>\<open>position.set\<close> (\<open>None\<close> when the file never sets it), \<open>color\<close> the colour argument.
\<close>

record 'n object3d =
  ref :: nat
  type :: string
  position :: "('n jsval \<times> 'n jsval \<times> 'n jsval) option"
  color :: member

text \<open>
  The state of the map. \<open>instances\<close> is the store: every light and mesh created so far,
  in the order of creation, each with the fields it has now; the instance with identity
  \<open>r\<close> is the entry at index \<open>r\<close>. An object stays in the store when it leaves the
  scene. \<open>children\<close> are the children of the scene, each carried with its fields; that a
  child is the entry of the store at its identity is \<open>store_ok\<close> below, which the
  constructor establishes and \<^verbatim>\<open>updateEntities\<close> keeps.
\<close>

record 'n spatial_map =
  container :: string
  children :: "'n object3d list"
  instances :: "'n object3d list"

definition allocated :: "'n spatial_map \<Rightarrow> nat" where
  "allocated s = length (instances s)"

text \<open>
  \<^verbatim>\<open>new THREE.AmbientLight(color)\<close>, \<^verbatim>\<open>new THREE.DirectionalLight(color, 0.5)\<close> and
  \<^verbatim>\<open>new THREE.Mesh(geometry, material)\<close>, the material made with the colour \<open>c\<close>:
  each puts a new instance into the store.
\<close>

definition AmbientLight :: "int \<Rightarrow> 'n spatial_map \<Rightarrow> 'n object3d \<times> 'n spatial_map" where
  "AmbientLight c s =
     (let obj = \<lparr>ref = allocated s, type = ''AmbientLight'', position = None, color = Num c\<rparr>
      in (obj, s\<lparr>instances := instances s @ [obj]\<rparr>))"

definition DirectionalLight :: "int \<Rightarrow> 'n spatial_map \<Rightarrow> 'n object3d \<times> 'n spatial_map" where
  "DirectionalLight c s =
     (let obj = \<lparr>ref = allocated s, type = ''DirectionalLight'', position = None, color = Num c\<rparr>
      in (obj, s\<lparr>instances := instances s @ [obj]\<rparr>))"

definition Mesh :: "member \<Rightarrow> 'n spatial_map \<Rightarrow> 'n object3d \<times> 'n spatial_map" where
  "Mesh c s =
     (let obj = \<lparr>ref = allocated s, type = ''Mesh'', position = None, color = c\<rparr>
      in (obj, s\<lparr>instances := instances s @ [obj]\<rparr>))"

text \<open>
  \<^verbatim>\<open>object.position.set(x, y, z)\<close> writes the position of the instance \<open>r\<close> in the
  store; the file calls it on the mesh it has just created, and on no other light or
  mesh. (On an \<open>r\<close> that is no index of the store the list update changes nothing.)
\<close>

definition position_set ::
  "nat \<Rightarrow> 'n jsval \<times> 'n jsval \<times> 'n jsval \<Rightarrow> 'n spatial_map \<Rightarrow> 'n spatial_map" where
  "position_set r p s =
     s\<lparr>instances := (instances s)[r := (instances s ! r)\<lparr>position := Some p\<rparr>]\<rparr>"

text \<open>\<^verbatim>\<open>this.scene.add(object)\<close> appends to the children.\<close>

definition scene_add :: "'n object3d \<Rightarrow> 'n spatial_map \<Rightarrow> 'n spatial_map" where
  "scene_add obj s = s\<lparr>children := children s @ [obj]\<rparr>"

text \<open>
  \<^verbatim>\<open>init\<close> adds the ambient and the directional light, in this order, and the
  constructor calls it on an empty scene. (The renderer, the camera, the controls and the
  animation loop do not touch the children of the scene; the container element is taken
  to exist in the page.)
\<close>

definition init :: "'n spatial_map \<Rightarrow> 'n spatial_map" where
  "init s =
     (case AmbientLight 0x404040 s of
        (ambientLight, s1) \<Rightarrow>
          (case DirectionalLight 0xffffff s1 of
             (directionalLight, s2) \<Rightarrow> scene_add directionalLight (scene_add ambientLight s2)))"

definition SpatialMap :: "string \<Rightarrow> 'n spatial_map" where
  "SpatialMap containerId = init \<lparr>container = containerId, children = [], instances = []\<rparr>"

subsection \<open>The methods\<close>

text \<open>
  \<^verbatim>\<open>getEntityColor\<close>: the table is an object literal, so \<^verbatim>\<open>colors[status]\<close> also
  finds the members every object inherits from \<^verbatim>\<open>Object.prototype\<close>; \<^verbatim>\<open>||\<close> keeps
  its left operand when that is truthy (a non-zero number, a function, an object).
\<close>

definition colors :: "(string \<times> int) list" where
  "colors = [(''active'', 0x00ff00), (''idle'', 0xffff00), (''alert'', 0xff0000)]"

definition Object_prototype :: "string list" where
  "Object_prototype =
     [''constructor'', ''hasOwnProperty'', ''isPrototypeOf'', ''propertyIsEnumerable'',
      ''toLocaleString'', ''toString'', ''valueOf'', ''__proto__'', ''__defineGetter__'',
      ''__defineSetter__'', ''__lookupGetter__'', ''__lookupSetter__'']"

definition colors_get :: "string \<Rightarrow> member" where
  "colors_get k =
     (case map_of colors k of
        Some n \<Rightarrow> Num n
      | None \<Rightarrow> if k \<in> set Object_prototype then Builtin k else Absent)"

fun truthy :: "member \<Rightarrow> bool" where
  "truthy (Num n) = (n \<noteq> 0)"
| "truthy (Builtin k) = True"
| "truthy Absent = False"

definition getEntityColor :: "('n \<Rightarrow> string) \<Rightarrow> 'n jsval \<Rightarrow> exn + member" where
  "getEntityColor nstr status =
     (case ToString nstr status of
        Inl e \<Rightarrow> Inl e
      | Inr k \<Rightarrow> Inr (if truthy (colors_get k) then colors_get k else Num 0x808080))"

text \<open>
  \<^verbatim>\<open>createEntityMesh\<close>: the colour is computed from \<^verbatim>\<open>entity.status\<close> first, then
  the mesh is created, then the three coordinates are read and handed to
  \<^verbatim>\<open>position.set\<close> of the new mesh, and the mesh is returned. Each read can throw; a
  throw after the mesh was created leaves the instance in the store, its position not set.
\<close>

definition createEntityMesh ::
  "('n \<Rightarrow> string) \<Rightarrow> 'n jsval \<Rightarrow> 'n spatial_map \<Rightarrow> (exn + 'n object3d) \<times> 'n spatial_map" where
  "createEntityMesh nstr entity s =
     (case get entity ''status'' of
        Inl e \<Rightarrow> (Inl e, s)
      | Inr status \<Rightarrow>
          (case getEntityColor nstr status of
             Inl e \<Rightarrow> (Inl e, s)
           | Inr c \<Rightarrow>
               (case Mesh c s of
                  (mesh, s') \<Rightarrow>
                    (case get entity ''coordinates'' of
                       Inl e \<Rightarrow> (Inl e, s')
                     | Inr co \<Rightarrow>
                         (case get co ''x'' of
                            Inl e \<Rightarrow> (Inl e, s')
                          | Inr x \<Rightarrow>
                              (case get co ''y'' of
                                 Inl e \<Rightarrow> (Inl e, s')
                               | Inr y \<Rightarrow>
                                   (case get co ''z'' of
                                      Inl e \<Rightarrow> (Inl e, s')
                                    | Inr z \<Rightarrow>
                                        (let s'' = position_set (ref mesh) (x, y, z) s'
                                         in (Inr (instances s'' ! ref mesh), s'')))))))))"

definition clearEntities :: "'n spatial_map \<Rightarrow> 'n spatial_map" where
  "clearEntities s = s\<lparr>children := filter (\<lambda>child. type child \<noteq> ''Mesh'') (children s)\<rparr>"

text \<open>
  The body of \<^verbatim>\<open>entities.forEach\<close>, over the elements of the array from left to
  right: a throw ends the loop, and the meshes added before it stay in the scene.
\<close>

fun forEach_add ::
  "('n \<Rightarrow> string) \<Rightarrow> 'n jsval list \<Rightarrow> 'n spatial_map \<Rightarrow> (exn + unit) \<times> 'n spatial_map" where
  "forEach_add nstr [] s = (Inr (), s)"
| "forEach_add nstr (entity # rest) s =
     (case createEntityMesh nstr entity s of
        (Inl e, s') \<Rightarrow> (Inl e, s')
      | (Inr mesh, s') \<Rightarrow> forEach_add nstr rest (scene_add mesh s'))"

text \<open>
  \<^verbatim>\<open>updateEntities\<close>: the scene is cleared before \<^verbatim>\<open>entities.forEach\<close> is looked
  up. Only an array has a \<^verbatim>\<open>forEach\<close> that is a function; on any other value the call
  throws a TypeError, after the scene was cleared.
\<close>

definition updateEntities ::
  "('n \<Rightarrow> string) \<Rightarrow> 'n jsval \<Rightarrow> 'n spatial_map \<Rightarrow> (exn + unit) \<times> 'n spatial_map" where
  "updateEntities nstr entities s =
     (let s' = clearEntities s in
      case entities of
        JArr es \<Rightarrow> forEach_add nstr es s'
      | _ \<Rightarrow> (Inl TypeError, s'))"

text \<open>
  \<^verbatim>\<open>socket.onmessage\<close>. Its argument here is what \<^verbatim>\<open>JSON.parse(event.data)\<close> does:
  it throws a SyntaxError (\<open>Inl\<close>) or returns the decoded value (\<open>Inr\<close>). The handler
  catches nothing, so an error of the parse, of \<^verbatim>\<open>data.type\<close> or of
  \<^verbatim>\<open>updateEntities\<close> leaves the handler.
\<close>

definition onmessage ::
  "('n \<Rightarrow> string) \<Rightarrow> exn + 'n jsval \<Rightarrow> 'n spatial_map \<Rightarrow> (exn + unit) \<times> 'n spatial_map" where
  "onmessage nstr parsed s =
     (case parsed of
        Inl e \<Rightarrow> (Inl e, s)
      | Inr data \<Rightarrow>
          (case get data ''type'' of
             Inl e \<Rightarrow> (Inl e, s)
           | Inr t \<Rightarrow>
               if t = JStr ''entity_update''
               then (case get data ''entities'' of
                       Inl e \<Rightarrow> (Inl e, s)
                     | Inr entities \<Rightarrow> updateEntities nstr entities s)
               else (Inr (), s)))"

text \<open>
  The listener of \<^verbatim>\<open>DOMContentLoaded\<close> creates the map and the web socket and
  installs the handler. Of the socket the model keeps its address and its
  \<^verbatim>\<open>readyState\<close>; a new socket is connecting, and the host opens and closes it.
\<close>

datatype readyState = CONNECTING | OPEN | CLOSING | CLOSED

record websocket =
  url :: string
  readyState :: readyState

record 'n page =
  map' :: "'n spatial_map"
  socket :: websocket

definition WebSocket :: "string \<Rightarrow> websocket" where
  "WebSocket u = \<lparr>url = u, readyState = CONNECTING\<rparr>"

definition DOMContentLoaded :: "string \<Rightarrow> 'n page" where
  "DOMContentLoaded host =
     \<lparr>map' = SpatialMap ''spatial-map'', socket = WebSocket (''ws://'' @ host @ ''/ws'')\<rparr>"

text \<open>The host's \<^verbatim>\<open>open\<close> event: the connection is established.\<close>

definition opened :: "'n page \<Rightarrow> 'n page" where
  "opened p = p\<lparr>socket := (socket p)\<lparr>readyState := OPEN\<rparr>\<rparr>"

text \<open>
  The handler where it is installed, in the scope of the listener, which holds
  \<^verbatim>\<open>map\<close> and \<^verbatim>\<open>socket\<close>. Its body, \<open>onmessage\<close> above, names \<^verbatim>\<open>map\<close>
  only: it has no call of \<^verbatim>\<open>socket.close\<close> and no assignment to the socket, on the
  normal path or on a throwing one.
\<close>

definition socket_onmessage ::
  "('n \<Rightarrow> string) \<Rightarrow> exn + 'n jsval \<Rightarrow> 'n page \<Rightarrow> (exn + unit) \<times> 'n page" where
  "socket_onmessage nstr parsed p =
     (case onmessage nstr parsed (map' p) of (r, m) \<Rightarrow> (r, p\<lparr>map' := m\<rparr>))"

text \<open>
  A run of calls of \<^verbatim>\<open>updateEntities\<close>, one for each message in arrival order; a
  call that throws leaves its state to the next.
\<close>

definition updates ::
  "('n \<Rightarrow> string) \<Rightarrow> 'n jsval list \<Rightarrow> 'n spatial_map \<Rightarrow> 'n spatial_map" where
  "updates nstr snapshots s = foldl (\<lambda>s es. snd (updateEntities nstr es s)) s snapshots"

subsection \<open>Observing the scene\<close>

text \<open>
  The meshes of the scene, in scene order, and the children that are no meshes. What a
  mesh shows is its position and its colour; its identity is \<open>ref\<close>.
\<close>

definition meshes :: "'n spatial_map \<Rightarrow> 'n object3d list" where
  "meshes s = filter (\<lambda>child. type child = ''Mesh'') (children s)"

definition others :: "'n spatial_map \<Rightarrow> 'n object3d list" where
  "others s = filter (\<lambda>child. type child \<noteq> ''Mesh'') (children s)"

definition appearance ::
  "'n object3d \<Rightarrow> ('n jsval \<times> 'n jsval \<times> 'n jsval) option \<times> member" where
  "appearance obj = (position obj, color obj)"

text \<open>
  The scene objects that one step takes out of the scene and the ones it puts in, by
  identity: the removed and the added entries the specification speaks of, read on the
  scene (the file keeps no other record of entities).
\<close>

definition detached :: "'n spatial_map \<Rightarrow> 'n spatial_map \<Rightarrow> 'n object3d list" where
  "detached s s' = filter (\<lambda>obj. ref obj \<notin> set (map ref (children s'))) (children s)"

definition attached :: "'n spatial_map \<Rightarrow> 'n spatial_map \<Rightarrow> 'n object3d list" where
  "attached s s' = filter (\<lambda>obj. ref obj \<notin> set (map ref (children s))) (children s')"

text \<open>
  The children of the scene are distinct instances, and each of them was created before
  now. The constructor establishes this and \<^verbatim>\<open>updateEntities\<close> keeps it.
\<close>

definition scene_ok :: "'n spatial_map \<Rightarrow> bool" where
  "scene_ok s =
     (distinct (map ref (children s)) \<and>
      list_all (\<lambda>child. ref child < allocated s) (children s))"

text \<open>
  The children of the scene are objects of the store: each is the entry of the store at
  its identity, with the fields that entry has.
\<close>

definition store_ok :: "'n spatial_map \<Rightarrow> bool" where
  "store_ok s =
     list_all (\<lambda>child. ref child < allocated s \<and> instances s ! ref child = child) (children s)"

subsection \<open>Entities of the wire format\<close>

text \<open>
  The specification's inbound message carries entities of the form
  \<^verbatim>\<open>{ "id"?: string, "coordinates": {"x": number, "y": number, "z": number}, "status": string }\<close>.
  The two functions read the coordinates and the status of such an entity and give
  \<open>None\<close> on a value of another form.
\<close>

fun number :: "'n jsval option \<Rightarrow> 'n option" where
  "number (Some (JNum n)) = Some n"
| "number _ = None"

fun entity_xyz :: "'n jsval \<Rightarrow> ('n \<times> 'n \<times> 'n) option" where
  "entity_xyz (JObj kvs) =
     (case map_of kvs ''coordinates'' of
        Some (JObj cs) \<Rightarrow>
          (case (number (map_of cs ''x''), number (map_of cs ''y''), number (map_of cs ''z'')) of
             (Some x, Some y, Some z) \<Rightarrow> Some (x, y, z)
           | _ \<Rightarrow> None)
      | _ \<Rightarrow> None)"
| "entity_xyz _ = None"

fun entity_status :: "'n jsval \<Rightarrow> string option" where
  "entity_status (JObj kvs) =
     (case map_of kvs ''status'' of Some (JStr st) \<Rightarrow> Some st | _ \<Rightarrow> None)"
| "entity_status _ = None"

definition wire_entity :: "'n jsval \<Rightarrow> bool" where
  "wire_entity e = (entity_xyz e \<noteq> None \<and> entity_status e \<noteq> None)"

text \<open>The place of an entity, as the three values handed to \<^verbatim>\<open>position.set\<close>.\<close>

definition place :: "'n jsval \<Rightarrow> ('n jsval \<times> 'n jsval \<times> 'n jsval) option" where
  "place e = map_option (\<lambda>(x, y, z). (JNum x, JNum y, JNum z)) (entity_xyz e)"

text \<open>The colour of an entity: what \<^verbatim>\<open>getEntityColor\<close> gives on its status.\<close>

definition paint :: "('n \<Rightarrow> string) \<Rightarrow> 'n jsval \<Rightarrow> (exn + member) option" where
  "paint nstr e = map_option (\<lambda>st. getEntityColor nstr (JStr st)) (entity_status e)"

text \<open>
  The entity of the specification's examples: \<^verbatim>\<open>{id: "e1", pos: (x, 0, 0), status}\<close>.
\<close>

definition e1 :: "int \<Rightarrow> string \<Rightarrow> int jsval" where
  "e1 x st =
     JObj [(''id'', JStr ''e1''),
           (''coordinates'', JObj [(''x'', JNum x), (''y'', JNum 0), (''z'', JNum 0)]),
           (''status'', JStr st)]"

section \<open>Properties\<close>

subsection \<open>The constructor\<close>

lemma SpatialMap_children:
  "children (SpatialMap cid) =
     [\<lparr>ref = 0, type = ''AmbientLight'', position = None, color = Num 0x404040\<rparr>,
      \<lparr>ref = 1, type = ''DirectionalLight'', position = None, color = Num 0xffffff\<rparr>]"
  "instances (SpatialMap cid) = children (SpatialMap cid)"
  "allocated (SpatialMap cid) = 2"
  "container (SpatialMap cid) = cid"
  by (simp_all add: SpatialMap_def init_def AmbientLight_def DirectionalLight_def scene_add_def
      allocated_def Let_def)

text \<open>Setting the position of the mesh that was created last.\<close>

lemma Mesh_position_set:
  "position_set (length (instances s)) p (s\<lparr>instances := instances s @ [obj]\<rparr>) =
     s\<lparr>instances := instances s @ [obj\<lparr>position := Some p\<rparr>]\<rparr>"
  by (simp add: position_set_def)

lemma createEntityMesh_e1:
  assumes "getEntityColor nstr (JStr st) = Inr c"
  shows "createEntityMesh nstr (e1 x st) s =
     (Inr \<lparr>ref = allocated s, type = ''Mesh'', position = Some (JNum x, JNum 0, JNum 0),
           color = c\<rparr>,
      s\<lparr>instances := instances s @
           [\<lparr>ref = allocated s, type = ''Mesh'', position = Some (JNum x, JNum 0, JNum 0),
             color = c\<rparr>]\<rparr>)"
  using assms
  by (simp add: createEntityMesh_def e1_def Mesh_def Mesh_position_set Let_def allocated_def)

subsection \<open>Colours\<close>

lemmas color_defs = getEntityColor_def colors_get_def colors_def Object_prototype_def

lemma getEntityColor_string: "\<exists>c. getEntityColor nstr (JStr st) = Inr c"
  by (simp add: getEntityColor_def)

lemma getEntityColor_default:
  assumes "st \<notin> {''active'', ''idle'', ''alert''}" and "st \<notin> set Object_prototype"
  shows "getEntityColor nstr (JStr st) = Inr (Num 0x808080)"
  using assms by (simp add: getEntityColor_def colors_get_def colors_def)

text \<open>
  C5: the mesh of an entity is coloured by its status: active is green (0x00ff00), idle
  yellow (0xffff00), alert red (0xff0000), and every other status is to give the default
  gray (0x808080) with no error. The three statuses of the table are as claimed. A status
  that names a member every object inherits is outside the table and yet does not give
  gray: for \<^verbatim>\<open>"toString"\<close> the lookup finds the inherited function, which is truthy,
  and the mesh is created with that function as its colour.
\<close>

theorem getEntityColor_inherited_member:
  "getEntityColor nstr (JStr ''active'') = Inr (Num 0x00ff00) \<and>
   getEntityColor nstr (JStr ''idle'') = Inr (Num 0xffff00) \<and>
   getEntityColor nstr (JStr ''alert'') = Inr (Num 0xff0000) \<and>
   getEntityColor nstr (JStr ''toString'') = Inr (Builtin ''toString'') \<and>
   getEntityColor nstr (JStr ''toString'') \<noteq> Inr (Num 0x808080) \<and>
   map_sum id color (fst (createEntityMesh decimal (e1 0 ''toString'') (SpatialMap ''spatial-map'')))
     = Inr (Builtin ''toString'')"
proof -
  have c: "getEntityColor decimal (JStr ''toString'') = Inr (Builtin ''toString'')"
    by (simp add: color_defs)
  have "map_sum id color
      (fst (createEntityMesh decimal (e1 0 ''toString'') (SpatialMap ''spatial-map''))) =
      Inr (Builtin ''toString'')"
    by (simp add: createEntityMesh_e1 [OF c])
  then show ?thesis by (simp add: color_defs)
qed

text \<open>
  C6 (as amended): a status that is neither in the table nor the name of an inherited
  member gets the default colour, gray, and no error; this default is a classification
  of its own, different from the one of idle.
\<close>

theorem unknown_status_default:
  assumes "st \<notin> {''active'', ''idle'', ''alert''}" and "st \<notin> set Object_prototype"
  shows "getEntityColor nstr (JStr st) = Inr (Num 0x808080) \<and>
         getEntityColor nstr (JStr st) \<noteq> getEntityColor nstr (JStr ''idle'')"
  using assms by (simp add: getEntityColor_def colors_get_def colors_def)

theorem unknown_status_default_witness:
  "''unknown'' \<notin> {''active'', ''idle'', ''alert''} \<and> ''unknown'' \<notin> set Object_prototype \<and>
   getEntityColor decimal (JStr ''unknown'') = Inr (Num 0x808080) \<and>
   getEntityColor decimal (JStr ''unknown'') \<noteq> getEntityColor decimal (JStr ''idle'')"
proof -
  have h1: "''unknown'' \<notin> {''active'', ''idle'', ''alert''}" by simp
  have h2: "''unknown'' \<notin> set Object_prototype" by (simp add: Object_prototype_def)
  from unknown_status_default [OF h1 h2, of decimal] h1 h2 show ?thesis by blast
qed

text \<open>
  The claim as stated, that an unknown status is treated as idle, fails: the status
  \<^verbatim>\<open>"unknown"\<close> is gray and idle is yellow.
\<close>

theorem unknown_status_is_not_idle:
  "getEntityColor decimal (JStr ''unknown'') = Inr (Num 0x808080) \<and>
   getEntityColor decimal (JStr ''idle'') = Inr (Num 0xffff00) \<and>
   getEntityColor decimal (JStr ''unknown'') \<noteq> getEntityColor decimal (JStr ''idle'')"
  by (simp add: color_defs)

subsection \<open>One mesh\<close>

lemma createEntityMesh_of_wire:
  assumes "entity_xyz e = Some (x, y, z)" and "entity_status e = Some st"
  shows "\<exists>m. createEntityMesh nstr e s = (Inr m, s\<lparr>instances := instances s @ [m]\<rparr>) \<and>
           ref m = allocated s \<and> type m = ''Mesh'' \<and>
           position m = Some (JNum x, JNum y, JNum z) \<and>
           getEntityColor nstr (JStr st) = Inr (color m)"
proof (cases e)
  case (JObj kvs)
  with assms obtain cs where cs: "map_of kvs ''coordinates'' = Some (JObj cs)"
    by (auto split: option.splits jsval.splits)
  with assms JObj have n: "map_of cs ''x'' = Some (JNum x)" "map_of cs ''y'' = Some (JNum y)"
      "map_of cs ''z'' = Some (JNum z)"
    by (auto split: option.splits elim!: number.elims)
  from assms JObj have st: "map_of kvs ''status'' = Some (JStr st)"
    by (auto split: option.splits jsval.splits)
  obtain c where c: "getEntityColor nstr (JStr st) = Inr c"
    using getEntityColor_string by blast
  show ?thesis
    by (simp add: createEntityMesh_def JObj cs n st c Mesh_def Mesh_position_set allocated_def
        Let_def)
qed (use assms in simp_all)

text \<open>
  C8: the mesh made for an entity of the wire format is placed at the coordinates of the
  entity: \<^verbatim>\<open>createEntityMesh\<close> returns, with a new mesh whose position is exactly
  \<open>(x, y, z)\<close> and whose colour is the colour of the status.
\<close>

theorem createEntityMesh_position:
  assumes "entity_xyz e = Some (x, y, z)" and "entity_status e = Some st"
  shows "\<exists>m. createEntityMesh nstr e s = (Inr m, s\<lparr>instances := instances s @ [m]\<rparr>) \<and>
           ref m = allocated s \<and> type m = ''Mesh'' \<and>
           position m = Some (JNum x, JNum y, JNum z) \<and>
           getEntityColor nstr (JStr st) = Inr (color m)"
  using assms by (rule createEntityMesh_of_wire)

theorem createEntityMesh_position_witness:
  "entity_xyz (e1 1 ''active'') = Some (1, 0, 0) \<and> entity_status (e1 1 ''active'') = Some ''active'' \<and>
   (\<exists>m. createEntityMesh decimal (e1 1 ''active'') (SpatialMap ''spatial-map'')
           = (Inr m, (SpatialMap ''spatial-map'')
                       \<lparr>instances := instances (SpatialMap ''spatial-map'') @ [m]\<rparr>) \<and>
         ref m = 2 \<and> position m = Some (JNum 1, JNum 0, JNum 0))"
proof -
  have h1: "entity_xyz (e1 1 ''active'') = Some (1, 0, 0)" by (simp add: e1_def)
  have h2: "entity_status (e1 1 ''active'') = Some ''active''" by (simp add: e1_def)
  have a: "allocated (SpatialMap ''spatial-map'' :: int spatial_map) = 2"
    by (rule SpatialMap_children)
  from createEntityMesh_position [OF h1 h2, of decimal "SpatialMap ''spatial-map''"] a h1 h2
  show ?thesis by auto
qed

subsection \<open>The message handler\<close>

text \<open>
  C7: a message that decodes to a value with a type other than \<^verbatim>\<open>"entity_update"\<close>
  is ignored: the handler returns with no error, \<^verbatim>\<open>updateEntities\<close> is not called and
  the state of the map is the same.
\<close>

theorem onmessage_other_type:
  assumes "get data ''type'' = Inr t" and "t \<noteq> JStr ''entity_update''"
  shows "onmessage nstr (Inr data) s = (Inr (), s)"
  using assms by (simp add: onmessage_def)

theorem onmessage_other_type_witness:
  "get (JObj [(''type'', JStr ''heartbeat''), (''entities'', JArr [e1 0 ''active''])]) ''type''
     = Inr (JStr ''heartbeat'') \<and>
   JStr ''heartbeat'' \<noteq> (JStr ''entity_update'' :: int jsval) \<and>
   onmessage decimal
       (Inr (JObj [(''type'', JStr ''heartbeat''), (''entities'', JArr [e1 0 ''active''])]))
       (SpatialMap ''spatial-map'')
     = (Inr (), SpatialMap ''spatial-map'')"
proof -
  have h1: "get (JObj [(''type'', JStr ''heartbeat''), (''entities'', JArr [e1 0 ''active''])]) ''type''
      = Inr (JStr ''heartbeat'')" by simp
  have h2: "JStr ''heartbeat'' \<noteq> (JStr ''entity_update'' :: int jsval)" by simp
  from onmessage_other_type [OF h1 h2, of decimal "SpatialMap ''spatial-map''"] h1 h2
  show ?thesis by blast
qed

text \<open>
  C4 (as amended): a malformed message never changes the state of the map, and it does
  not terminate the connection: the handler leaves the socket as it was, whatever the
  message and also when it throws. A message that decodes to a value without a type
  member is dropped with no error. A message that fails to decode is not dropped
  silently: the error of \<^verbatim>\<open>JSON.parse\<close> leaves the handler, which catches nothing;
  and the message \<^verbatim>\<open>null\<close> throws a TypeError at \<^verbatim>\<open>data.type\<close>.
\<close>

theorem onmessage_malformed:
  "onmessage nstr (Inl e) s = (Inl e, s) \<and>
   onmessage nstr (Inr JNull) s = (Inl TypeError, s) \<and>
   (get data ''type'' = Inr JUndefined \<longrightarrow> onmessage nstr (Inr data) s = (Inr (), s)) \<and>
   socket_onmessage nstr (Inl e) p = (Inl e, p) \<and>
   socket_onmessage nstr (Inr JNull) p = (Inl TypeError, p) \<and>
   (get data ''type'' = Inr JUndefined \<longrightarrow> socket_onmessage nstr (Inr data) p = (Inr (), p)) \<and>
   socket (snd (socket_onmessage nstr parsed p)) = socket p"
proof -
  have "socket (snd (socket_onmessage nstr parsed p)) = socket p"
    by (cases "onmessage nstr parsed (map' p)") (simp add: socket_onmessage_def)
  then show ?thesis by (simp add: onmessage_def socket_onmessage_def)
qed

theorem onmessage_malformed_witness:
  "onmessage decimal (Inl SyntaxError) (SpatialMap ''spatial-map'')
     = (Inl SyntaxError, SpatialMap ''spatial-map'') \<and>
   onmessage decimal (Inr JNull) (SpatialMap ''spatial-map'')
     = (Inl TypeError, SpatialMap ''spatial-map'') \<and>
   get (JObj [(''entities'', JArr [e1 0 ''active''])]) ''type'' = Inr JUndefined \<and>
   onmessage decimal (Inr (JObj [(''entities'', JArr [e1 0 ''active''])])) (SpatialMap ''spatial-map'')
     = (Inr (), SpatialMap ''spatial-map'') \<and>
   socket_onmessage decimal (Inl SyntaxError) (opened (DOMContentLoaded ''localhost''))
     = (Inl SyntaxError, opened (DOMContentLoaded ''localhost'')) \<and>
   socket_onmessage decimal (Inr JNull) (opened (DOMContentLoaded ''localhost''))
     = (Inl TypeError, opened (DOMContentLoaded ''localhost'')) \<and>
   socket_onmessage decimal (Inr (JObj [(''entities'', JArr [e1 0 ''active''])]))
       (opened (DOMContentLoaded ''localhost''))
     = (Inr (), opened (DOMContentLoaded ''localhost'')) \<and>
   readyState (socket (snd (socket_onmessage decimal (Inl SyntaxError)
       (opened (DOMContentLoaded ''localhost''))))) = OPEN"
proof -
  have h: "get (JObj [(''entities'', JArr [e1 0 ''active''])]) ''type'' = Inr JUndefined"
    by simp
  have o: "readyState (socket (opened (DOMContentLoaded ''localhost'' :: int page))) = OPEN"
    by (simp add: opened_def)
  note c = onmessage_malformed [of decimal SyntaxError "SpatialMap ''spatial-map''"
      "JObj [(''entities'', JArr [e1 0 ''active''])]" "opened (DOMContentLoaded ''localhost'')"
      "Inl SyntaxError"]
  from c h have c1: "onmessage decimal (Inl SyntaxError) (SpatialMap ''spatial-map'')
      = (Inl SyntaxError, SpatialMap ''spatial-map'')"
    and c2: "onmessage decimal (Inr JNull) (SpatialMap ''spatial-map'')
      = (Inl TypeError, SpatialMap ''spatial-map'')"
    and c3: "onmessage decimal (Inr (JObj [(''entities'', JArr [e1 0 ''active''])]))
        (SpatialMap ''spatial-map'') = (Inr (), SpatialMap ''spatial-map'')"
    and c4: "socket_onmessage decimal (Inl SyntaxError) (opened (DOMContentLoaded ''localhost''))
      = (Inl SyntaxError, opened (DOMContentLoaded ''localhost''))"
    and c5: "socket_onmessage decimal (Inr JNull) (opened (DOMContentLoaded ''localhost''))
      = (Inl TypeError, opened (DOMContentLoaded ''localhost''))"
    and c6: "socket_onmessage decimal (Inr (JObj [(''entities'', JArr [e1 0 ''active''])]))
        (opened (DOMContentLoaded ''localhost'')) = (Inr (), opened (DOMContentLoaded ''localhost''))"
    and c7: "socket (snd (socket_onmessage decimal (Inl SyntaxError)
        (opened (DOMContentLoaded ''localhost'')))) =
        socket (opened (DOMContentLoaded ''localhost'' :: int page))"
    by blast+
  from c7 o have c8: "readyState (socket (snd (socket_onmessage decimal (Inl SyntaxError)
       (opened (DOMContentLoaded ''localhost''))))) = OPEN" by simp
  show ?thesis
    by (rule conjI [OF c1 conjI [OF c2 conjI [OF h conjI [OF c3 conjI [OF c4 conjI [OF c5
          conjI [OF c6 c8]]]]]]])
qed

text \<open>
  The claim as stated fails on a message that does not decode, such as the text
  \<^verbatim>\<open>{\<close>: the SyntaxError of \<^verbatim>\<open>JSON.parse\<close> propagates out of the handler.
\<close>

theorem onmessage_parse_error_propagates:
  "fst (onmessage decimal (Inl SyntaxError) (SpatialMap ''spatial-map'')) = Inl SyntaxError \<and>
   fst (onmessage decimal (Inl SyntaxError) (SpatialMap ''spatial-map'')) \<noteq> Inr ()"
  by (simp add: onmessage_def)

subsection \<open>The loop of \<^verbatim>\<open>updateEntities\<close>\<close>

text \<open>
  \<^verbatim>\<open>createEntityMesh\<close> ends in one of three ways: it throws before the mesh is
  created, it throws after, or it returns the new mesh.
\<close>

lemma createEntityMesh_cases:
  "(\<exists>x. createEntityMesh nstr e s = (Inl x, s)) \<or>
   (\<exists>x c. createEntityMesh nstr e s =
      (Inl x, s\<lparr>instances := instances s @
         [\<lparr>ref = allocated s, type = ''Mesh'', position = None, color = c\<rparr>]\<rparr>)) \<or>
   (\<exists>p c. createEntityMesh nstr e s =
      (Inr \<lparr>ref = allocated s, type = ''Mesh'', position = Some p, color = c\<rparr>,
       s\<lparr>instances := instances s @
         [\<lparr>ref = allocated s, type = ''Mesh'', position = Some p, color = c\<rparr>]\<rparr>))"
  by (auto simp: createEntityMesh_def Mesh_def Mesh_position_set Let_def allocated_def
      split: sum.splits)

lemma createEntityMesh_children [simp]:
  "children (snd (createEntityMesh nstr e s)) = children s"
  using createEntityMesh_cases [of nstr e s] by auto

lemma createEntityMesh_container [simp]:
  "container (snd (createEntityMesh nstr e s)) = container s"
  using createEntityMesh_cases [of nstr e s] by auto

lemma createEntityMesh_allocated:
  "allocated s \<le> allocated (snd (createEntityMesh nstr e s))"
  using createEntityMesh_cases [of nstr e s] by (auto simp: allocated_def)

lemma createEntityMesh_instances:
  "\<exists>ext. instances (snd (createEntityMesh nstr e s)) = instances s @ ext"
  using createEntityMesh_cases [of nstr e s] by auto

lemma createEntityMesh_Inr:
  assumes "createEntityMesh nstr e s = (Inr m, s')"
  shows "ref m = allocated s \<and> type m = ''Mesh'' \<and> s' = s\<lparr>instances := instances s @ [m]\<rparr>"
  using createEntityMesh_cases [of nstr e s] assms by auto

lemma createEntityMesh_look:
  "map_sum id appearance (fst (createEntityMesh nstr e s1)) =
   map_sum id appearance (fst (createEntityMesh nstr e s2))"
  by (simp add: createEntityMesh_def Mesh_def Mesh_position_set Let_def appearance_def
      allocated_def split: sum.splits)

lemma createEntityMesh_wire:
  assumes "wire_entity e"
  shows "\<exists>m. createEntityMesh nstr e s = (Inr m, s\<lparr>instances := instances s @ [m]\<rparr>) \<and>
           ref m = allocated s \<and> type m = ''Mesh'' \<and>
           position m = place e \<and> Some (Inr (color m)) = paint nstr e"
proof -
  from assms obtain x y z st where h: "entity_xyz e = Some (x, y, z)" "entity_status e = Some st"
    by (auto simp: wire_entity_def)
  from createEntityMesh_of_wire [OF h, of nstr s] h show ?thesis
    by (auto simp: place_def paint_def)
qed


lemma meshes_scene_add:
  "type m = ''Mesh'' \<Longrightarrow> meshes (scene_add m s) = meshes s @ [m]"
  by (simp add: meshes_def scene_add_def)

lemma others_scene_add:
  "type m = ''Mesh'' \<Longrightarrow> others (scene_add m s) = others s"
  by (simp add: others_def scene_add_def)

lemma forEach_add_others: "others (snd (forEach_add nstr es s)) = others s"
proof (induction es arbitrary: s)
  case Nil
  show ?case by simp
next
  case (Cons e es)
  obtain r s' where r: "createEntityMesh nstr e s = (r, s')" by (cases "createEntityMesh nstr e s")
  have ch: "children s' = children s"
    using createEntityMesh_children [of nstr e s] r by simp
  show ?case
  proof (cases r)
    case (Inl x)
    with r ch show ?thesis by (simp add: others_def)
  next
    case (Inr m)
    with r have "type m = ''Mesh''" using createEntityMesh_Inr by blast
    with r Inr ch Cons.IH [of "scene_add m s'"] show ?thesis
      by (simp add: others_scene_add) (simp add: others_def)
  qed
qed

lemma forEach_add_container: "container (snd (forEach_add nstr es s)) = container s"
proof (induction es arbitrary: s)
  case Nil
  show ?case by simp
next
  case (Cons e es)
  obtain r s' where r: "createEntityMesh nstr e s = (r, s')" by (cases "createEntityMesh nstr e s")
  have ch: "container s' = container s"
    using createEntityMesh_container [of nstr e s] r by simp
  show ?case
  proof (cases r)
    case (Inl x)
    with r ch show ?thesis by simp
  next
    case (Inr m)
    with r ch Cons.IH [of "scene_add m s'"] show ?thesis
      by (simp add: scene_add_def)
  qed
qed

text \<open>What the loop adds: new meshes, after the children there were, each younger than
  every instance counted before.\<close>

lemma forEach_add_children:
  "\<exists>new. children (snd (forEach_add nstr es s)) = children s @ new \<and>
     list_all (\<lambda>m. type m = ''Mesh'') new \<and>
     list_all (\<lambda>m. allocated s \<le> ref m \<and> ref m < allocated (snd (forEach_add nstr es s))) new \<and>
     distinct (map ref new) \<and>
     allocated s \<le> allocated (snd (forEach_add nstr es s))"
proof (induction es arbitrary: s)
  case Nil
  show ?case by simp
next
  case (Cons e es)
  obtain r s' where r: "createEntityMesh nstr e s = (r, s')" by (cases "createEntityMesh nstr e s")
  have ch: "children s' = children s" and al: "allocated s \<le> allocated s'"
    using createEntityMesh_children [of nstr e s] createEntityMesh_allocated [of s nstr e] r
    by simp_all
  show ?case
  proof (cases r)
    case (Inl x)
    with r ch al show ?thesis by simp
  next
    case (Inr m)
    with r have m: "ref m = allocated s" "type m = ''Mesh''" "allocated s' = Suc (allocated s)"
      using createEntityMesh_Inr [of nstr e s m s'] by (auto simp: allocated_def)
    let ?t = "snd (forEach_add nstr es (scene_add m s'))"
    from Cons.IH [of "scene_add m s'"] obtain new where new:
      "children ?t = children (scene_add m s') @ new"
      "list_all (\<lambda>m. type m = ''Mesh'') new"
      "list_all (\<lambda>x. allocated (scene_add m s') \<le> ref x \<and> ref x < allocated ?t) new"
      "distinct (map ref new)"
      "allocated (scene_add m s') \<le> allocated ?t"
      by blast
    have a: "allocated (scene_add m s') = Suc (allocated s)"
      using m by (simp add: scene_add_def allocated_def)
    have t: "snd (forEach_add nstr (e # es) s) = ?t" using r Inr by simp
    have "children ?t = children s @ (m # new)"
      using new(1) ch by (simp add: scene_add_def)
    moreover have "list_all (\<lambda>m. type m = ''Mesh'') (m # new)" using new(2) m by simp
    moreover have "list_all (\<lambda>x. allocated s \<le> ref x \<and> ref x < allocated ?t) (m # new)"
      using new(3,5) m a by (auto simp: list_all_iff)
    moreover have "distinct (map ref (m # new))"
      using new(3,4) m a by (auto simp: list_all_iff)
    moreover have "allocated s \<le> allocated ?t" using new(5) a by simp
    ultimately show ?thesis unfolding t by blast
  qed
qed

text \<open>On entities of the wire format the loop runs to its end.\<close>

lemma forEach_add_wire:
  assumes "list_all wire_entity es"
  shows "\<exists>new. forEach_add nstr es s =
           (Inr (), s\<lparr>children := children s @ new, instances := instances s @ new\<rparr>) \<and>
         list_all (\<lambda>m. type m = ''Mesh'') new \<and>
         map ref new = [allocated s ..< allocated s + length es] \<and>
         map position new = map place es \<and>
         map (\<lambda>m. Some (Inr (color m))) new = map (paint nstr) es"
  using assms
proof (induction es arbitrary: s)
  case Nil
  show ?case by simp
next
  case (Cons e es)
  then have e: "wire_entity e" and es: "list_all wire_entity es" by simp_all
  from createEntityMesh_wire [OF e, of nstr s] obtain m where m:
    "createEntityMesh nstr e s = (Inr m, s\<lparr>instances := instances s @ [m]\<rparr>)"
    "ref m = allocated s" "type m = ''Mesh''" "position m = place e"
    "Some (Inr (color m)) = paint nstr e"
    by blast
  let ?s = "scene_add m (s\<lparr>instances := instances s @ [m]\<rparr>)"
  from Cons.IH [OF es, of ?s] obtain new where new:
    "forEach_add nstr es ?s =
       (Inr (), ?s\<lparr>children := children ?s @ new, instances := instances ?s @ new\<rparr>)"
    "list_all (\<lambda>m. type m = ''Mesh'') new"
    "map ref new = [allocated ?s ..< allocated ?s + length es]"
    "map position new = map place es"
    "map (\<lambda>m. Some (Inr (color m))) new = map (paint nstr) es"
    by blast
  have a: "allocated ?s = Suc (allocated s)" by (simp add: scene_add_def allocated_def)
  have "forEach_add nstr (e # es) s =
      (Inr (), s\<lparr>children := children s @ (m # new), instances := instances s @ (m # new)\<rparr>)"
    using m(1) new(1) by (simp add: scene_add_def)
  moreover have "list_all (\<lambda>m. type m = ''Mesh'') (m # new)" using m new(2) by simp
  moreover have "map ref (m # new) = [allocated s ..< allocated s + length (e # es)]"
  proof -
    have "[allocated s ..< allocated s + length (e # es)] =
        allocated s # [Suc (allocated s) ..< Suc (allocated s) + length es]"
      by (subst upt_rec) simp
    with m(2) new(3) a show ?thesis by simp
  qed
  moreover have "map position (m # new) = map place (e # es)" using m(4) new(4) by simp
  moreover have "map (\<lambda>m. Some (Inr (color m))) (m # new) = map (paint nstr) (e # es)"
    using m(5) new(5) by simp
  ultimately show ?case by blast
qed

lemma forEach_add_look:
  assumes "map appearance (meshes s1) = map appearance (meshes s2)"
  shows "fst (forEach_add nstr es s1) = fst (forEach_add nstr es s2) \<and>
         map appearance (meshes (snd (forEach_add nstr es s1))) =
         map appearance (meshes (snd (forEach_add nstr es s2)))"
  using assms
proof (induction es arbitrary: s1 s2)
  case Nil
  then show ?case by simp
next
  case (Cons e es)
  obtain r1 t1 where r1: "createEntityMesh nstr e s1 = (r1, t1)"
    by (cases "createEntityMesh nstr e s1")
  obtain r2 t2 where r2: "createEntityMesh nstr e s2 = (r2, t2)"
    by (cases "createEntityMesh nstr e s2")
  have look: "map_sum id appearance r1 = map_sum id appearance r2"
    using createEntityMesh_look [of nstr e s1 s2] r1 r2 by simp
  have ch: "children t1 = children s1" "children t2 = children s2"
    using createEntityMesh_children [of nstr e s1] createEntityMesh_children [of nstr e s2] r1 r2
    by simp_all
  show ?case
  proof (cases r1)
    case (Inl x)
    with look have "r2 = Inl x" by (cases r2) simp_all
    with Inl r1 r2 ch Cons.prems show ?thesis by (simp add: meshes_def)
  next
    case (Inr m1)
    with look obtain m2 where m2: "r2 = Inr m2" "appearance m1 = appearance m2"
      by (cases r2) simp_all
    have ty: "type m1 = ''Mesh''" "type m2 = ''Mesh''"
      using createEntityMesh_Inr r1 r2 Inr m2(1) by blast+
    have "map appearance (meshes (scene_add m1 t1)) = map appearance (meshes (scene_add m2 t2))"
      using Cons.prems ch ty m2(2) by (simp add: meshes_def scene_add_def)
    from Cons.IH [OF this] r1 r2 Inr m2(1) show ?thesis by simp
  qed
qed

subsection \<open>\<^verbatim>\<open>updateEntities\<close> and runs of it\<close>

lemma clearEntities_simps [simp]:
  "children (clearEntities s) = others s"
  "allocated (clearEntities s) = allocated s"
  "instances (clearEntities s) = instances s"
  "container (clearEntities s) = container s"
  by (simp_all add: clearEntities_def others_def allocated_def)

lemma meshes_clearEntities [simp]: "meshes (clearEntities s) = []"
  by (simp add: meshes_def others_def)

lemma others_clearEntities [simp]: "others (clearEntities s) = others s"
  by (simp add: others_def)

lemma updateEntities_others: "others (snd (updateEntities nstr entities s)) = others s"
  by (cases entities) (simp_all add: updateEntities_def forEach_add_others)

lemma updateEntities_look:
  "fst (updateEntities nstr entities s1) = fst (updateEntities nstr entities s2) \<and>
   map appearance (meshes (snd (updateEntities nstr entities s1))) =
   map appearance (meshes (snd (updateEntities nstr entities s2)))"
proof (cases entities)
  case (JArr es)
  have "map appearance (meshes (clearEntities s1)) = map appearance (meshes (clearEntities s2))"
    by simp
  from forEach_add_look [OF this, of nstr es] JArr show ?thesis
    by (simp add: updateEntities_def)
qed (simp_all add: updateEntities_def)

lemma filter_append_new:
  assumes "list_all (\<lambda>m. type m = ''Mesh'') new"
  shows "meshes (s\<lparr>children := others t @ new\<rparr>) = new"
    and "others (s\<lparr>children := others t @ new\<rparr>) = others t"
  using assms by (simp_all add: meshes_def others_def list_all_iff filter_id_conv filter_empty_conv)

lemma updateEntities_children:
  "\<exists>new. children (snd (updateEntities nstr entities s)) = others s @ new \<and>
     meshes (snd (updateEntities nstr entities s)) = new \<and>
     list_all (\<lambda>m. allocated s \<le> ref m \<and> ref m < allocated (snd (updateEntities nstr entities s))) new \<and>
     distinct (map ref new) \<and>
     allocated s \<le> allocated (snd (updateEntities nstr entities s))"
proof (cases entities)
  case (JArr es)
  let ?t = "snd (forEach_add nstr es (clearEntities s))"
  have t: "snd (updateEntities nstr entities s) = ?t" using JArr by (simp add: updateEntities_def)
  from forEach_add_children [of nstr es "clearEntities s"] obtain new where new:
    "children ?t = others s @ new" "list_all (\<lambda>m. type m = ''Mesh'') new"
    "list_all (\<lambda>m. allocated s \<le> ref m \<and> ref m < allocated ?t) new"
    "distinct (map ref new)" "allocated s \<le> allocated ?t"
    by auto
  have "meshes ?t = new"
    using new(1,2) by (simp add: meshes_def others_def list_all_iff filter_id_conv filter_empty_conv)
  with new show ?thesis unfolding t by blast
qed (simp_all add: updateEntities_def)

lemma updateEntities_allocated:
  "allocated s \<le> allocated (snd (updateEntities nstr entities s))"
  using updateEntities_children [of nstr entities s] by blast

lemma updateEntities_scene_ok:
  assumes "scene_ok s"
  shows "scene_ok (snd (updateEntities nstr entities s))"
proof -
  let ?t = "snd (updateEntities nstr entities s)"
  from updateEntities_children [of nstr entities s] obtain new where new:
    "children ?t = others s @ new"
    "list_all (\<lambda>m. allocated s \<le> ref m \<and> ref m < allocated ?t) new"
    "distinct (map ref new)" "allocated s \<le> allocated ?t"
    by blast
  from assms have d: "distinct (map ref (others s))"
    and b: "\<forall>c \<in> set (others s). ref c < allocated s"
    by (auto simp: scene_ok_def others_def list_all_iff distinct_map_filter)
  have "distinct (map ref (others s @ new))"
    using d new(2,3) b by (fastforce simp: list_all_iff)
  moreover have "list_all (\<lambda>c. ref c < allocated ?t) (others s @ new)"
    using b new(2,4) by (fastforce simp: list_all_iff)
  ultimately show ?thesis by (simp add: scene_ok_def new(1))
qed

lemma updateEntities_new_instances:
  assumes "scene_ok s"
  shows "set (map ref (meshes (snd (updateEntities nstr entities s)))) \<inter> set (map ref (children s)) = {}"
    and "detached s (snd (updateEntities nstr entities s)) = meshes s"
    and "attached s (snd (updateEntities nstr entities s)) = meshes (snd (updateEntities nstr entities s))"
proof -
  let ?t = "snd (updateEntities nstr entities s)"
  from updateEntities_children [of nstr entities s] obtain new where new:
    "children ?t = others s @ new" "meshes ?t = new"
    "list_all (\<lambda>m. allocated s \<le> ref m \<and> ref m < allocated ?t) new"
    by blast
  from assms have d: "distinct (map ref (children s))"
    and b: "\<forall>c \<in> set (children s). ref c < allocated s"
    by (auto simp: scene_ok_def list_all_iff)
  have fresh: "\<forall>m \<in> set new. ref m \<notin> ref ` set (children s)"
    using new(3) b by (fastforce simp: list_all_iff)
  then show "set (map ref (meshes ?t)) \<inter> set (map ref (children s)) = {}"
    using new(2) by auto
  have old: "\<forall>c \<in> set (children s). type c = ''Mesh'' \<longrightarrow> ref c \<notin> ref ` set (others s)"
  proof (intro ballI impI notI)
    fix c assume c: "c \<in> set (children s)" "type c = ''Mesh''" "ref c \<in> ref ` set (others s)"
    then obtain c' where c': "c' \<in> set (children s)" "type c' \<noteq> ''Mesh''" "ref c' = ref c"
      by (auto simp: others_def)
    from d c(1) c'(1,3) have "c' = c" by (metis distinct_map inj_on_def)
    with c(2) c'(2) show False by simp
  qed
  have "detached s ?t = filter (\<lambda>c. type c = ''Mesh'') (children s)"
    unfolding detached_def new(1)
  proof (rule filter_cong [OF refl])
    fix c assume c: "c \<in> set (children s)"
    show "(ref c \<notin> set (map ref (others s @ new))) = (type c = ''Mesh'')"
    proof (cases "type c = ''Mesh''")
      case True
      with old c have "ref c \<notin> ref ` set (others s)" by blast
      moreover have "ref c \<notin> ref ` set new"
      proof
        assume "ref c \<in> ref ` set new"
        then obtain m where "m \<in> set new" "ref m = ref c" by auto
        with fresh c show False by (metis imageI)
      qed
      ultimately show ?thesis using True by simp
    next
      case False
      with c have "c \<in> set (others s)" by (simp add: others_def)
      with False show ?thesis by simp
    qed
  qed
  then show "detached s ?t = meshes s" by (simp add: meshes_def)
  have "filter (\<lambda>obj. ref obj \<notin> set (map ref (children s))) (others s) = []"
    by (auto simp: filter_empty_conv others_def)
  moreover have "filter (\<lambda>obj. ref obj \<notin> set (map ref (children s))) new = new"
    using fresh by (auto simp: filter_id_conv)
  ultimately show "attached s ?t = meshes ?t"
    by (simp add: attached_def new(1,2))
qed

lemma updateEntities_wire:
  assumes "list_all wire_entity es"
  shows "fst (updateEntities nstr (JArr es) s) = Inr () \<and>
         map position (meshes (snd (updateEntities nstr (JArr es) s))) = map place es \<and>
         map (\<lambda>m. Some (Inr (color m))) (meshes (snd (updateEntities nstr (JArr es) s))) =
           map (paint nstr) es"
proof -
  from forEach_add_wire [OF assms, of nstr "clearEntities s"] obtain new where new:
    "forEach_add nstr es (clearEntities s) =
       (Inr (), (clearEntities s)\<lparr>children := others s @ new, instances := instances s @ new\<rparr>)"
    "list_all (\<lambda>m. type m = ''Mesh'') new"
    "map position new = map place es"
    "map (\<lambda>m. Some (Inr (color m))) new = map (paint nstr) es"
    by auto
  have "meshes (snd (updateEntities nstr (JArr es) s)) = new"
    using new(1,2)
    by (simp add: updateEntities_def meshes_def others_def list_all_iff filter_id_conv filter_empty_conv)
  with new show ?thesis by (simp add: updateEntities_def)
qed

text \<open>
  The store only grows: no call writes to an instance that existed before it, and the
  children of the scene stay objects of the store.
\<close>

lemma forEach_add_instances:
  "\<exists>ext. instances (snd (forEach_add nstr es s)) = instances s @ ext"
proof (induction es arbitrary: s)
  case Nil
  show ?case by simp
next
  case (Cons e es)
  obtain r s' where r: "createEntityMesh nstr e s = (r, s')" by (cases "createEntityMesh nstr e s")
  from createEntityMesh_instances [of nstr e s] r obtain ext where
    ext: "instances s' = instances s @ ext" by auto
  show ?case
  proof (cases r)
    case (Inl x)
    with r ext show ?thesis by simp
  next
    case (Inr m)
    from Cons.IH [of "scene_add m s'"] obtain ext' where
      "instances (snd (forEach_add nstr es (scene_add m s'))) = instances (scene_add m s') @ ext'"
      by blast
    with r Inr ext show ?thesis by (simp add: scene_add_def)
  qed
qed

lemma updateEntities_instances:
  "\<exists>ext. instances (snd (updateEntities nstr entities s)) = instances s @ ext"
proof (cases entities)
  case (JArr es)
  with forEach_add_instances [of nstr es "clearEntities s"] show ?thesis
    by (simp add: updateEntities_def)
qed (simp_all add: updateEntities_def)

lemma updateEntities_keeps_instances:
  "take (allocated s) (instances (snd (updateEntities nstr entities s))) = instances s"
  using updateEntities_instances [of nstr entities s] by (auto simp: allocated_def)

lemma store_ok_grow:
  assumes "store_ok s" and "children s' = children s" and "instances s' = instances s @ ext"
  shows "store_ok s'"
  using assms by (auto simp: store_ok_def allocated_def list_all_iff nth_append)

lemma forEach_add_store_ok:
  assumes "store_ok s"
  shows "store_ok (snd (forEach_add nstr es s))"
  using assms
proof (induction es arbitrary: s)
  case Nil
  then show ?case by simp
next
  case (Cons e es)
  obtain r s' where r: "createEntityMesh nstr e s = (r, s')" by (cases "createEntityMesh nstr e s")
  from createEntityMesh_instances [of nstr e s] r obtain ext where
    ext: "instances s' = instances s @ ext" by auto
  have ch: "children s' = children s"
    using createEntityMesh_children [of nstr e s] r by simp
  have ok: "store_ok s'" using Cons.prems ch ext by (rule store_ok_grow)
  show ?case
  proof (cases r)
    case (Inl x)
    with r ok show ?thesis by simp
  next
    case (Inr m)
    with r have m: "ref m = allocated s" "s' = s\<lparr>instances := instances s @ [m]\<rparr>"
      using createEntityMesh_Inr [of nstr e s m s'] by auto
    have "store_ok (scene_add m s')"
      using ok m by (auto simp: store_ok_def scene_add_def allocated_def list_all_iff)
    from Cons.IH [OF this] r Inr show ?thesis by simp
  qed
qed

lemma updateEntities_store_ok:
  assumes "store_ok s"
  shows "store_ok (snd (updateEntities nstr entities s))"
proof -
  have c: "store_ok (clearEntities s)"
    using assms by (auto simp: store_ok_def others_def list_all_iff)
  show ?thesis
  proof (cases entities)
    case (JArr es)
    with forEach_add_store_ok [OF c, of nstr es] show ?thesis by (simp add: updateEntities_def)
  qed (use c in \<open>simp_all add: updateEntities_def\<close>)
qed

lemma SpatialMap_scene_ok: "scene_ok (SpatialMap cid)"
  by (simp add: scene_ok_def SpatialMap_children)

lemma SpatialMap_store_ok: "store_ok (SpatialMap cid)"
  by (simp add: store_ok_def SpatialMap_children)

lemma updates_snoc:
  "updates nstr (before @ [entities]) s = snd (updateEntities nstr entities (updates nstr before s))"
  by (simp add: updates_def)

lemma updates_scene_ok: "scene_ok s \<Longrightarrow> scene_ok (updates nstr before s)"
  by (induction before rule: rev_induct) (simp_all add: updates_snoc updateEntities_scene_ok, simp add: updates_def)

lemma updates_others: "others (updates nstr before s) = others s"
  by (induction before rule: rev_induct) (simp_all add: updates_snoc updateEntities_others, simp add: updates_def)

lemma updates_allocated: "allocated s \<le> allocated (updates nstr before s)"
proof (induction before rule: rev_induct)
  case Nil
  show ?case by (simp add: updates_def)
next
  case (snoc entities before)
  with updateEntities_allocated [of "updates nstr before s" nstr entities] show ?case
    by (simp add: updates_snoc)
qed

lemma updates_append:
  "updates nstr (xs @ ys) s = updates nstr ys (updates nstr xs s)"
  by (simp add: updates_def)

lemma updates_take_allocated:
  "allocated (updates nstr (take k before) s) \<le> allocated (updates nstr before s)"
proof -
  have "updates nstr before s = updates nstr (drop k before) (updates nstr (take k before) s)"
    using updates_append [of nstr "take k before" "drop k before" s] by simp
  then show ?thesis using updates_allocated [of "updates nstr (take k before) s" nstr "drop k before"] by simp
qed

subsection \<open>The examples of the specification, computed\<close>

lemma getEntityColor_active: "getEntityColor nstr (JStr ''active'') = Inr (Num 0x00ff00)"
  by (simp add: color_defs)

lemma updateEntities_e1:
  "snd (updateEntities decimal (JArr [e1 x ''active'']) s) =
     s\<lparr>children := others s @
          [\<lparr>ref = allocated s, type = ''Mesh'', position = Some (JNum x, JNum 0, JNum 0),
            color = Num 0x00ff00\<rparr>],
       instances := instances s @
          [\<lparr>ref = allocated s, type = ''Mesh'', position = Some (JNum x, JNum 0, JNum 0),
            color = Num 0x00ff00\<rparr>]\<rparr>"
  by (simp add: updateEntities_def createEntityMesh_e1 [OF getEntityColor_active] scene_add_def
      clearEntities_def others_def allocated_def)

lemma others_SpatialMap:
  "others (SpatialMap cid) =
     [\<lparr>ref = 0, type = ''AmbientLight'', position = None, color = Num 0x404040\<rparr>,
      \<lparr>ref = 1, type = ''DirectionalLight'', position = None, color = Num 0xffffff\<rparr>]"
  by (simp add: others_def SpatialMap_children)

lemma scene_after_first_snapshot:
  "snd (updateEntities decimal (JArr [e1 x ''active'']) (SpatialMap cid)) =
     \<lparr>container = cid,
      children =
        [\<lparr>ref = 0, type = ''AmbientLight'', position = None, color = Num 0x404040\<rparr>,
         \<lparr>ref = 1, type = ''DirectionalLight'', position = None, color = Num 0xffffff\<rparr>,
         \<lparr>ref = 2, type = ''Mesh'', position = Some (JNum x, JNum 0, JNum 0), color = Num 0x00ff00\<rparr>],
      instances =
        [\<lparr>ref = 0, type = ''AmbientLight'', position = None, color = Num 0x404040\<rparr>,
         \<lparr>ref = 1, type = ''DirectionalLight'', position = None, color = Num 0xffffff\<rparr>,
         \<lparr>ref = 2, type = ''Mesh'', position = Some (JNum x, JNum 0, JNum 0), color = Num 0x00ff00\<rparr>]\<rparr>"
  unfolding updateEntities_e1 others_SpatialMap
  by (rule spatial_map.equality) (simp_all add: SpatialMap_children)

lemma scene_after_second_snapshot:
  "snd (updateEntities decimal (JArr [e1 y ''active''])
     (snd (updateEntities decimal (JArr [e1 x ''active'']) (SpatialMap cid)))) =
     \<lparr>container = cid,
      children =
        [\<lparr>ref = 0, type = ''AmbientLight'', position = None, color = Num 0x404040\<rparr>,
         \<lparr>ref = 1, type = ''DirectionalLight'', position = None, color = Num 0xffffff\<rparr>,
         \<lparr>ref = 3, type = ''Mesh'', position = Some (JNum y, JNum 0, JNum 0), color = Num 0x00ff00\<rparr>],
      instances =
        [\<lparr>ref = 0, type = ''AmbientLight'', position = None, color = Num 0x404040\<rparr>,
         \<lparr>ref = 1, type = ''DirectionalLight'', position = None, color = Num 0xffffff\<rparr>,
         \<lparr>ref = 2, type = ''Mesh'', position = Some (JNum x, JNum 0, JNum 0), color = Num 0x00ff00\<rparr>,
         \<lparr>ref = 3, type = ''Mesh'', position = Some (JNum y, JNum 0, JNum 0), color = Num 0x00ff00\<rparr>]\<rparr>"
  unfolding scene_after_first_snapshot unfolding updateEntities_e1
  by (simp add: others_def allocated_def)

subsection \<open>The scene after a snapshot\<close>

text \<open>
  C1: after any sequence of earlier calls of \<^verbatim>\<open>updateEntities\<close> on the map the
  constructor made (their arguments may be any values, also ones on which the call
  throws), applying a snapshot of wire-format entities returns normally and leaves
  exactly one mesh for each entity of the snapshot, in the order of the snapshot and at
  the coordinates of the entity; these meshes are distinct instances and none of them
  was a child of the scene at any earlier moment. After an empty snapshot the scene has
  no mesh. (A mesh carries no identifier: the correspondence is by place in the list.)
\<close>

theorem updateEntities_scene_matches_snapshot:
  assumes "list_all wire_entity es"
  shows "let s = updates nstr before (SpatialMap cid); r = updateEntities nstr (JArr es) s in
           fst r = Inr () \<and>
           length (meshes (snd r)) = length es \<and>
           map position (meshes (snd r)) = map place es \<and>
           distinct (map ref (meshes (snd r))) \<and>
           (\<forall>k \<le> length before.
              set (map ref (meshes (snd r))) \<inter>
              set (map ref (children (updates nstr (take k before) (SpatialMap cid)))) = {}) \<and>
           meshes (snd (updateEntities nstr (JArr []) s)) = []"
proof -
  let ?s = "updates nstr before (SpatialMap cid)"
  let ?t = "snd (updateEntities nstr (JArr es) ?s)"
  from updateEntities_wire [OF assms, of nstr ?s]
  have w: "fst (updateEntities nstr (JArr es) ?s) = Inr ()" "map position (meshes ?t) = map place es"
    by simp_all
  from w(2) have len: "length (meshes ?t) = length es" by (metis length_map)
  from updateEntities_children [of nstr "JArr es" ?s] obtain new where new:
    "meshes ?t = new" "list_all (\<lambda>m. allocated ?s \<le> ref m \<and> ref m < allocated ?t) new"
    "distinct (map ref new)"
    by blast
  have old: "set (map ref (meshes ?t)) \<inter>
      set (map ref (children (updates nstr (take k before) (SpatialMap cid)))) = {}" for k
  proof -
    let ?p = "updates nstr (take k before) (SpatialMap cid)"
    have "scene_ok ?p" by (simp add: updates_scene_ok SpatialMap_scene_ok)
    then have "\<forall>c \<in> set (children ?p). ref c < allocated ?p"
      by (simp add: scene_ok_def list_all_iff)
    moreover have "allocated ?p \<le> allocated ?s" by (rule updates_take_allocated)
    moreover have "\<forall>m \<in> set (meshes ?t). allocated ?s \<le> ref m"
      using new(1,2) by (simp add: list_all_iff)
    ultimately show ?thesis by fastforce
  qed
  have empty: "meshes (snd (updateEntities nstr (JArr []) ?s)) = []"
    by (simp add: updateEntities_def)
  from w len new(1,3) old empty show ?thesis by (simp add: Let_def)
qed

theorem updateEntities_scene_matches_snapshot_witness:
  "list_all wire_entity [e1 1 ''active''] \<and>
   (let s = updates decimal [JArr [e1 0 ''active''], JNull] (SpatialMap ''spatial-map'');
        r = updateEntities decimal (JArr [e1 1 ''active'']) s in
      fst r = Inr () \<and>
      length (meshes (snd r)) = length [e1 1 ''active''] \<and>
      map position (meshes (snd r)) = [Some (JNum 1, JNum 0, JNum 0)] \<and>
      distinct (map ref (meshes (snd r))) \<and>
      (\<forall>k \<le> length [JArr [e1 0 ''active''], JNull :: int jsval].
         set (map ref (meshes (snd r))) \<inter>
         set (map ref (children (updates decimal (take k [JArr [e1 0 ''active''], JNull])
                                  (SpatialMap ''spatial-map'')))) = {}) \<and>
      meshes (snd (updateEntities decimal (JArr []) s)) = [])"
proof -
  have h: "list_all wire_entity [e1 1 ''active'']" by (simp add: wire_entity_def e1_def)
  have p: "map place [e1 1 ''active''] = [Some (JNum 1, JNum 0, JNum 0)]"
    by (simp add: place_def e1_def)
  note c = updateEntities_scene_matches_snapshot [OF h, of decimal "[JArr [e1 0 ''active''], JNull]" "''spatial-map''", unfolded p]
  show ?thesis by (rule conjI [OF h c])
qed

text \<open>
  C9: \<^verbatim>\<open>updateEntities\<close>, on any argument and whether it throws or not, leaves the
  children that are no meshes as they were, in the same order; on the map the constructor
  made these are the ambient and the directional light of \<^verbatim>\<open>init\<close>, after any run
  of calls.
\<close>

theorem updateEntities_keeps_other_children:
  "others (snd (updateEntities nstr entities s)) = others s \<and>
   others (snd (updateEntities nstr entities (updates nstr before (SpatialMap cid)))) =
     [\<lparr>ref = 0, type = ''AmbientLight'', position = None, color = Num 0x404040\<rparr>,
      \<lparr>ref = 1, type = ''DirectionalLight'', position = None, color = Num 0xffffff\<rparr>]"
  by (simp add: updateEntities_others updates_others) (simp add: others_def SpatialMap_children)

text \<open>
  C10: what the meshes of the scene show after \<^verbatim>\<open>updateEntities\<close> is a function of
  the argument alone: from any two states the same argument gives the same outcome
  (normal or the same error) and lists of meshes that agree in length, order, positions
  and colours.
\<close>

theorem updateEntities_meshes_from_snapshot_only:
  "fst (updateEntities nstr entities s1) = fst (updateEntities nstr entities s2) \<and>
   map appearance (meshes (snd (updateEntities nstr entities s1))) =
   map appearance (meshes (snd (updateEntities nstr entities s2)))"
  by (rule updateEntities_look)

subsection \<open>Rebuilding instead of updating\<close>

text \<open>
  C2 (as amended): \<^verbatim>\<open>updateEntities\<close> never updates a scene object in place. Applying
  a snapshot to a scene removes every mesh the scene had and builds a new instance for
  each entity of the snapshot, with the position and the colour the snapshot gives it;
  this holds for an entity that was in the previous snapshot as for any other.
\<close>

theorem updateEntities_replaces_instances:
  assumes "scene_ok s" and "list_all wire_entity es"
  shows "let s' = snd (updateEntities nstr (JArr es) s) in
           map position (meshes s') = map place es \<and>
           map (\<lambda>m. Some (Inr (color m))) (meshes s') = map (paint nstr) es \<and>
           set (map ref (meshes s')) \<inter> set (map ref (children s)) = {} \<and>
           detached s s' = meshes s"
  using updateEntities_wire [OF assms(2), of nstr s] updateEntities_new_instances(1,2) [OF assms(1), of nstr "JArr es"]
  by (simp add: Let_def)

theorem updateEntities_replaces_instances_witness:
  "scene_ok (snd (updateEntities decimal (JArr [e1 0 ''active'']) (SpatialMap ''spatial-map''))) \<and>
   list_all wire_entity [e1 1 ''active''] \<and>
   (let s' = snd (updateEntities decimal (JArr [e1 1 ''active''])
                 (snd (updateEntities decimal (JArr [e1 0 ''active'']) (SpatialMap ''spatial-map'')))) in
      map position (meshes s') = [Some (JNum 1, JNum 0, JNum 0)] \<and>
      map (\<lambda>m. Some (Inr (color m))) (meshes s') = [Some (Inr (Num 0x00ff00) :: exn + member)] \<and>
      set (map ref (meshes s')) \<inter>
        set (map ref (children (snd (updateEntities decimal (JArr [e1 0 ''active''])
                                     (SpatialMap ''spatial-map''))))) = {} \<and>
      detached (snd (updateEntities decimal (JArr [e1 0 ''active'']) (SpatialMap ''spatial-map''))) s'
        = meshes (snd (updateEntities decimal (JArr [e1 0 ''active'']) (SpatialMap ''spatial-map''))))"
proof -
  have h1: "scene_ok (snd (updateEntities decimal (JArr [e1 0 ''active'']) (SpatialMap ''spatial-map'')))"
    by (simp add: scene_after_first_snapshot scene_ok_def allocated_def)
  have h2: "list_all wire_entity [e1 1 ''active'']" by (simp add: wire_entity_def e1_def)
  have p: "map place [e1 1 ''active''] = [Some (JNum 1, JNum 0, JNum 0)]"
    by (simp add: place_def e1_def)
  have q: "map (paint decimal) [e1 1 ''active''] = [Some (Inr (Num 0x00ff00))]"
    by (simp add: paint_def e1_def color_defs)
  note c = updateEntities_replaces_instances [OF h1 h2, of decimal, unfolded p q]
  show ?thesis by (rule conjI [OF h1 conjI [OF h2 c]])
qed

text \<open>
  The claim as stated fails on the specification's own example: after the snapshot with
  \<^verbatim>\<open>e1\<close> at \<open>(0, 0, 0)\<close> the mesh is instance 2; after the snapshot with
  \<^verbatim>\<open>e1\<close> at \<open>(1, 0, 0)\<close> the mesh is instance 3, another object.
\<close>

theorem changed_entity_gets_new_instance:
  "map ref (meshes (snd (updateEntities decimal (JArr [e1 0 ''active'']) (SpatialMap ''spatial-map'')))) = [2] \<and>
   map ref (meshes (snd (updateEntities decimal (JArr [e1 1 ''active''])
       (snd (updateEntities decimal (JArr [e1 0 ''active'']) (SpatialMap ''spatial-map'')))))) = [3] \<and>
   map position (meshes (snd (updateEntities decimal (JArr [e1 1 ''active''])
       (snd (updateEntities decimal (JArr [e1 0 ''active'']) (SpatialMap ''spatial-map'')))))) =
     [Some (JNum 1, JNum 0, JNum 0)]"
  by (simp only: scene_after_second_snapshot) (simp add: scene_after_first_snapshot meshes_def)

text \<open>
  C3 (as amended): applying the same snapshot a second time leaves the scene showing the
  same meshes (as many, in the same order, with the same positions and colours) and the
  same other children, it returns normally, and it performs no mutation of any existing
  scene object: every instance that existed before the second application, the meshes of
  the first among them, has afterwards the fields it had. But it is not a step without
  effect: every mesh of the first application is taken out of the scene and a new
  instance is put in for each entity.
\<close>

theorem identical_snapshot_rebuilds:
  assumes "scene_ok s" and "store_ok s" and "list_all wire_entity es"
  shows "let r1 = updateEntities nstr (JArr es) s; r2 = updateEntities nstr (JArr es) (snd r1) in
           fst r1 = Inr () \<and> fst r2 = Inr () \<and>
           map appearance (meshes (snd r2)) = map appearance (meshes (snd r1)) \<and>
           others (snd r2) = others (snd r1) \<and>
           detached (snd r1) (snd r2) = meshes (snd r1) \<and>
           attached (snd r1) (snd r2) = meshes (snd r2) \<and>
           length (meshes (snd r1)) = length es \<and> length (meshes (snd r2)) = length es \<and>
           take (allocated (snd r1)) (instances (snd r2)) = instances (snd r1) \<and>
           list_all (\<lambda>obj. ref obj < allocated (snd r1) \<and> instances (snd r2) ! ref obj = obj)
             (children (snd r1))"
proof -
  let ?s1 = "snd (updateEntities nstr (JArr es) s)"
  let ?s2 = "snd (updateEntities nstr (JArr es) ?s1)"
  have ok: "scene_ok ?s1" using assms(1) by (rule updateEntities_scene_ok)
  have st: "store_ok ?s1" using assms(2) by (rule updateEntities_store_ok)
  have w1: "fst (updateEntities nstr (JArr es) s) = Inr ()" "map position (meshes ?s1) = map place es"
    using updateEntities_wire [OF assms(3), of nstr s] by simp_all
  have w2: "fst (updateEntities nstr (JArr es) ?s1) = Inr ()" "map position (meshes ?s2) = map place es"
    using updateEntities_wire [OF assms(3), of nstr ?s1] by simp_all
  have l1: "length (meshes ?s1) = length es" using w1(2) by (metis length_map)
  have l2: "length (meshes ?s2) = length es" using w2(2) by (metis length_map)
  have look: "map appearance (meshes ?s2) = map appearance (meshes ?s1)"
    using updateEntities_look [of nstr "JArr es" ?s1 s] by simp
  have oth: "others ?s2 = others ?s1" by (rule updateEntities_others)
  have keep: "take (allocated ?s1) (instances ?s2) = instances ?s1"
    by (rule updateEntities_keeps_instances)
  from updateEntities_instances [of nstr "JArr es" ?s1] obtain ext where
    ext: "instances ?s2 = instances ?s1 @ ext" by blast
  have same: "list_all (\<lambda>obj. ref obj < allocated ?s1 \<and> instances ?s2 ! ref obj = obj)
      (children ?s1)"
    using st unfolding ext by (auto simp: store_ok_def allocated_def list_all_iff nth_append)
  from updateEntities_new_instances(2,3) [OF ok, of nstr "JArr es"] w1(1) w2(1) l1 l2 look oth
    keep same
  show ?thesis by (simp add: Let_def)
qed

theorem identical_snapshot_rebuilds_witness:
  "scene_ok (SpatialMap ''spatial-map'' :: int spatial_map) \<and>
   store_ok (SpatialMap ''spatial-map'' :: int spatial_map) \<and>
   list_all wire_entity [e1 0 ''active''] \<and>
   (let r1 = updateEntities decimal (JArr [e1 0 ''active'']) (SpatialMap ''spatial-map'');
        r2 = updateEntities decimal (JArr [e1 0 ''active'']) (snd r1) in
      fst r1 = Inr () \<and> fst r2 = Inr () \<and>
      map appearance (meshes (snd r2)) = map appearance (meshes (snd r1)) \<and>
      others (snd r2) = others (snd r1) \<and>
      detached (snd r1) (snd r2) = meshes (snd r1) \<and>
      attached (snd r1) (snd r2) = meshes (snd r2) \<and>
      length (meshes (snd r1)) = length [e1 0 ''active''] \<and>
      length (meshes (snd r2)) = length [e1 0 ''active''] \<and>
      take (allocated (snd r1)) (instances (snd r2)) = instances (snd r1) \<and>
      list_all (\<lambda>obj. ref obj < allocated (snd r1) \<and> instances (snd r2) ! ref obj = obj)
        (children (snd r1)))"
proof -
  have h1: "scene_ok (SpatialMap ''spatial-map'' :: int spatial_map)" by (rule SpatialMap_scene_ok)
  have h2: "store_ok (SpatialMap ''spatial-map'' :: int spatial_map)" by (rule SpatialMap_store_ok)
  have h3: "list_all wire_entity [e1 0 ''active'']" by (simp add: wire_entity_def e1_def)
  note c = identical_snapshot_rebuilds [OF h1 h2 h3, of decimal]
  show ?thesis by (rule conjI [OF h1 conjI [OF h2 conjI [OF h3 c]]])
qed

text \<open>
  The claim as stated fails on a snapshot with one entity: the second application
  removes one scene object (instance 2) and adds one (instance 3), not zero.
\<close>

theorem identical_snapshot_detaches_and_attaches:
  "map ref (detached (snd (updateEntities decimal (JArr [e1 0 ''active'']) (SpatialMap ''spatial-map'')))
      (snd (updateEntities decimal (JArr [e1 0 ''active''])
         (snd (updateEntities decimal (JArr [e1 0 ''active'']) (SpatialMap ''spatial-map'')))))) = [2] \<and>
   map ref (attached (snd (updateEntities decimal (JArr [e1 0 ''active'']) (SpatialMap ''spatial-map'')))
      (snd (updateEntities decimal (JArr [e1 0 ''active''])
         (snd (updateEntities decimal (JArr [e1 0 ''active'']) (SpatialMap ''spatial-map'')))))) = [3]"
  by (simp only: scene_after_second_snapshot) (simp add: scene_after_first_snapshot detached_def attached_def)

end
